theory Spec2Isabelle
  imports Main "HOL-Library.Word" "HOL-Library.Log_Nat"
begin

section \<open>The tag-vm-config function: data model\<close>

text \<open>
  A shallow embedding of \<^verbatim>\<open>examples/go/tag-vm-config/handler/handler.go\<close> and
  \<^verbatim>\<open>handler/client.go\<close>. Go's \<^verbatim>\<open>int\<close> is the 64-bit machine integer, \<^verbatim>\<open>int32\<close> the
  32-bit one, a \<^verbatim>\<open>string\<close> a list of bytes. A Go \<^verbatim>\<open>error\<close> is represented by
  its message (what \<^verbatim>\<open>err.Error()\<close> returns); a nullable error is an option. A pointer
  that may be nil is an option, and dereferencing nil is the outcome \<open>Panic\<close>.
\<close>

type_synonym error = string

datatype 'a outcome = Returned 'a | Panic string

definition nil_dereference :: string where
  "nil_dereference = ''runtime error: invalid memory address or nil pointer dereference''"

definition negative_shift :: string where
  "negative_shift = ''runtime error: negative shift amount''"

subsection \<open>govmomi types, as far as the handler reads them\<close>

record ManagedObjectReference =
  Type :: string
  Value :: string

text \<open>\<^verbatim>\<open>types.VmEventArgument\<close>: the field \<^verbatim>\<open>Vm\<close> is the reference of the machine.\<close>

record VmEventArgument =
  Vm :: ManagedObjectReference

record AlarmEventArgument =
  Name :: string

text \<open>
  \<^verbatim>\<open>types.AlarmStatusChangedEvent\<close>: \<^verbatim>\<open>Vm\<close> is a pointer (\<^verbatim>\<open>*VmEventArgument\<close>, promoted
  from the embedded \<^verbatim>\<open>Event\<close>), \<^verbatim>\<open>Alarm.Name\<close> the alarm's name, \<^verbatim>\<open>To\<close> the new level.
\<close>

record AlarmStatusChangedEvent =
  Vm :: "VmEventArgument option"
  Alarm :: AlarmEventArgument
  To :: string

record cloudEvent =
  Data :: AlarmStatusChangedEvent

record VirtualHardware =
  NumCPU :: "32 word"
  MemoryMB :: "32 word"

record VirtualMachineConfigInfo =
  Hardware :: VirtualHardware

text \<open>\<^verbatim>\<open>mo.VirtualMachine\<close>: \<^verbatim>\<open>Config\<close> is a pointer, nil in the zero value.\<close>

record VirtualMachine =
  Config :: "VirtualMachineConfigInfo option"

record Tag =
  ID :: string
  Name :: string
  CategoryID :: string

subsection \<open>Configuration, URL and clients\<close>

record VCenter_t =
  Server :: string
  User :: string
  Password :: string
  Insecure :: bool

record vcConfig =
  VCenter :: VCenter_t

record Userinfo =
  username :: string
  password :: string

record URL =
  Scheme :: string
  User :: "Userinfo option"
  Host :: string
  Path :: string

definition UserPassword :: "string \<Rightarrow> string \<Rightarrow> Userinfo option" where
  "UserPassword u p = Some \<lparr>username = u, password = p\<rparr>"

text \<open>
  A govmomi client is identified by the session the service handed out; the REST client
  and the tag manager are built from it without talking to the service.
\<close>

type_synonym govmomi_Client = nat

datatype rest_Client = rest_NewClient govmomi_Client

datatype tags_Manager = tags_NewManager rest_Client

record vsClient =
  govmomi :: govmomi_Client
  rest :: rest_Client
  tagMgr :: tags_Manager

subsection \<open>Request and response of the function SDK\<close>

record Request =
  Body :: string

record Response =
  Body :: string
  StatusCode :: nat

definition StatusOK :: nat where
  "StatusOK = 200"

definition StatusInternalServerError :: nat where
  "StatusInternalServerError = 500"

section \<open>float64\<close>

text \<open>
  A float64 is a rational (a finite value), an infinity or NaN; the two zeros are not told
  apart (the handler divides only by \<^verbatim>\<open>math.Log10(2)\<close>, which is not zero, and never prints
  a float). \<open>round64\<close> is IEEE~754
  round-to-nearest, ties-to-even, to a 53-bit significand with exponents from \<open>-1022\<close>
  (subnormals included) to \<open>1023\<close>, overflowing to an infinity.
\<close>

datatype float64 = Finite rat | PosInf | NegInf | NaN

definition pow2 :: "int \<Rightarrow> rat" where
  "pow2 e = (if 0 \<le> e then 2 ^ nat e else 1 / 2 ^ nat (- e))"

text \<open>\<open>ilog2 x\<close> is \<open>\<lfloor>log\<^sub>2 x\<rfloor>\<close> for \<open>0 < x\<close>.\<close>

definition ilog2 :: "rat \<Rightarrow> int" where
  "ilog2 x = (if 1 \<le> x then bitlen \<lfloor>x\<rfloor> - 1 else - bitlen (\<lceil>1 / x\<rceil> - 1))"

definition round_half_even :: "rat \<Rightarrow> int" where
  "round_half_even q =
     (let f = \<lfloor>q\<rfloor>; d = q - of_int f
      in if d < 1 / 2 then f else if 1 / 2 < d then f + 1 else if even f then f else f + 1)"

definition round64 :: "rat \<Rightarrow> float64" where
  "round64 x =
     (if x = 0 then Finite 0
      else let e = max (ilog2 \<bar>x\<bar>) (- 1022);
               ulp = pow2 (e - 52);
               y = of_int (round_half_even (x / ulp)) * ulp
           in if 2 ^ 1024 \<le> \<bar>y\<bar> then (if 0 < x then PosInf else NegInf) else Finite y)"

definition is_neg :: "float64 \<Rightarrow> bool" where
  "is_neg x = (case x of Finite r \<Rightarrow> r < 0 | NegInf \<Rightarrow> True | _ \<Rightarrow> False)"

definition signed_inf :: "bool \<Rightarrow> float64" where
  "signed_inf neg = (if neg then NegInf else PosInf)"

definition is_inf :: "float64 \<Rightarrow> bool" where
  "is_inf x = (x = PosInf \<or> x = NegInf)"

text \<open>Multiplication and division of float64 values (the Go operators \<^verbatim>\<open>*\<close> and \<^verbatim>\<open>/\<close>).\<close>

definition f64_mul :: "float64 \<Rightarrow> float64 \<Rightarrow> float64" where
  "f64_mul x y =
     (case (x, y) of
        (Finite a, Finite b) \<Rightarrow> round64 (a * b)
      | _ \<Rightarrow> if x = NaN \<or> y = NaN \<or> x = Finite 0 \<or> y = Finite 0 then NaN
             else signed_inf (is_neg x \<noteq> is_neg y))"

definition f64_div :: "float64 \<Rightarrow> float64 \<Rightarrow> float64" where
  "f64_div x y =
     (case (x, y) of
        (Finite a, Finite b) \<Rightarrow>
          if b = 0 then (if a = 0 then NaN else signed_inf (a < 0)) else round64 (a / b)
      | _ \<Rightarrow> if x = NaN \<or> y = NaN \<or> (is_inf x \<and> is_inf y) then NaN
             else if is_inf y then Finite 0
             else signed_inf (is_neg x \<noteq> is_neg y))"

text \<open>The constant \<^verbatim>\<open>math.Ln10\<close>, as the math package writes it.\<close>

definition Ln10 :: rat where
  "Ln10 = 230258509299404568401799145468436421 / 10 ^ 35"

section \<open>The world outside the function\<close>

text \<open>
  Everything the handler calls but does not define is a field of the world: the
  environment, the JSON and TOML decoders, the vSphere service, and the parts of Go's
  runtime that the language leaves to the implementation.
  \<^item> \<open>range_order\<close>: the order in which a \<^verbatim>\<open>range\<close> over a map visits its keys;
  \<^item> \<open>math_Log10\<close>: the function \<^verbatim>\<open>math.Log10\<close> of Go's standard library;
  \<^item> \<open>int_unrepresentable\<close>: the result of converting a float64 that no \<^verbatim>\<open>int\<close> holds;
  \<^item> \<open>pc_Retrieve\<close>: the destination as the property collector left it, and its error.
\<close>

record world =
  getenv :: "string \<Rightarrow> string"
  json_Unmarshal :: "string \<Rightarrow> error + cloudEvent"
  toml_LoadFile :: "string \<Rightarrow> error + string"
  toml_Unmarshal :: "string \<Rightarrow> error + vcConfig"
  range_order :: "string list"
  math_Log10 :: "float64 \<Rightarrow> float64"
  int_unrepresentable :: "float64 \<Rightarrow> 64 word"
  govmomi_NewClient :: "URL \<Rightarrow> bool \<Rightarrow> error + govmomi_Client"
  rest_Login :: "rest_Client \<Rightarrow> Userinfo option \<Rightarrow> error option"
  pc_Retrieve :: "govmomi_Client \<Rightarrow> ManagedObjectReference \<Rightarrow> VirtualMachine \<times> error option"
  GetTagsForCategory :: "tags_Manager \<Rightarrow> string \<Rightarrow> error + Tag list"
  AttachTag :: "tags_Manager \<Rightarrow> string \<Rightarrow> ManagedObjectReference \<Rightarrow> error option"

text \<open>What the function writes to the log, and the calls it makes to its collaborators.\<close>

datatype logentry =
    Println string
  | Printf_vmMOR ManagedObjectReference
  | Printf_ERROR error
  | Printf_moVM VirtualMachine

datatype call =
    Call_LoadFile string
  | Call_NewClient URL bool
  | Call_Login rest_Client "Userinfo option"
  | Call_Retrieve govmomi_Client ManagedObjectReference
  | Call_GetTagsForCategory tags_Manager string
  | Call_AttachTag tags_Manager string ManagedObjectReference

text \<open>
  The package's global variables: \<open>client\<close> (nil until the first connection) and \<open>once\<close>
  (whether the signal handler was started), with the log and the trace of calls. The
  mutex \<^verbatim>\<open>lock\<close> has no state of its own in a sequential run.
\<close>

record state =
  client :: "vsClient option"
  once :: bool
  logged :: "logentry list"
  calls :: "call list"

definition log_add :: "logentry \<Rightarrow> state \<Rightarrow> state" where
  "log_add l s = s\<lparr>logged := logged s @ [l]\<rparr>"

definition call_add :: "call \<Rightarrow> state \<Rightarrow> state" where
  "call_add c s = s\<lparr>calls := calls s @ [c]\<rparr>"

text \<open>Two states that differ at most in what was logged.\<close>

definition log_equiv :: "state \<Rightarrow> state \<Rightarrow> bool" where
  "log_equiv s t = (client s = client t \<and> once s = once t \<and> calls s = calls t)"

section \<open>Go library functions used by the handler\<close>

text \<open>\<^verbatim>\<open>strconv.Itoa\<close>: the decimal representation of an integer.\<close>

fun digits :: "nat \<Rightarrow> string" where
  "digits n =
     (if n < 10 then [''0123456789'' ! n]
      else digits (n div 10) @ [''0123456789'' ! (n mod 10)])"

declare digits.simps [simp del]

definition decimal :: "int \<Rightarrow> string" where
  "decimal i = (if i < 0 then CHR ''-'' # digits (nat (- i)) else digits (nat i))"

definition Itoa :: "64 word \<Rightarrow> string" where
  "Itoa i = decimal (sint i)"

text \<open>
  Go computes \<^verbatim>\<open>math.Log10(x)\<close> as \<^verbatim>\<open>math.Log(x) * (1/Ln10)\<close> in float64 arithmetic.
  \<open>go_Log\<close> holds the float64 value of the natural logarithm at 2 and at the memory sizes
  used below, \<open>go_Log10\<close> the value of \<^verbatim>\<open>math.Log10\<close> there; elsewhere the tables are not
  filled in.
\<close>

definition go_Log :: "float64 \<Rightarrow> float64" where
  "go_Log x =
     (if x = Finite 2 then Finite (6243314768165359 / 9007199254740992)
      else if x = Finite 2048 then Finite (8584557806227369 / 1125899906842624)
      else if x = Finite 4096 then Finite (4682486076124019 / 562949953421312)
      else if x = Finite 8192 then Finite (2536346624567177 / 281474976710656)
      else if x = Finite 2097152 then Finite (4097175316608517 / 281474976710656)
      else if x = Finite 4194304 then Finite (8584557806227369 / 562949953421312)
      else if x = Finite 8388608 then Finite (1121845622404713 / 70368744177664)
      else NaN)"

definition go_Log10 :: "float64 \<Rightarrow> float64" where
  "go_Log10 x =
     (if x = Finite 2 then Finite (5422874305198591 / 18014398509481984)
      else if x = Finite 2048 then Finite (3728226084824031 / 1125899906842624)
      else if x = Finite 4096 then Finite (4067155728898943 / 1125899906842624)
      else if x = Finite 8192 then Finite (8812170745947709 / 2251799813685248)
      else if x = Finite 2097152 then Finite (3558761262786575 / 562949953421312)
      else if x = Finite 4194304 then Finite (3728226084824031 / 562949953421312)
      else if x = Finite 8388608 then Finite (3897690906861487 / 562949953421312)
      else NaN)"

text \<open>
  The conversion \<^verbatim>\<open>int(f)\<close> drops the fraction (truncation towards zero); where the result is
  not a value of \<^verbatim>\<open>int\<close> the language leaves it to the implementation.
\<close>

definition float64_to_int :: "world \<Rightarrow> float64 \<Rightarrow> 64 word" where
  "float64_to_int w f =
     (case f of
        Finite r \<Rightarrow>
          (let t = (if 0 \<le> r then \<lfloor>r\<rfloor> else \<lceil>r\<rceil>)
           in if - (2 ^ 63) \<le> t \<and> t < 2 ^ 63 then word_of_int t else int_unrepresentable w f)
      | _ \<Rightarrow> int_unrepresentable w f)"

text \<open>The conversions \<^verbatim>\<open>int(x)\<close> and \<^verbatim>\<open>float64(x)\<close> of an \<^verbatim>\<open>int32\<close>; both are exact.\<close>

definition int32_to_int :: "32 word \<Rightarrow> 64 word" where
  "int32_to_int x = word_of_int (sint x)"

definition int32_to_float64 :: "32 word \<Rightarrow> float64" where
  "int32_to_float64 x = Finite (of_int (sint x))"

section \<open>handler.go\<close>

definition cfgPath :: string where
  "cfgPath = ''/var/openfaas/secrets/vcconfig''"

subsection \<open>debug and errRespondAndLog\<close>

definition debug :: "world \<Rightarrow> bool" where
  "debug w = (let verbose = getenv w ''write_debug'' in if verbose = ''true'' then True else False)"

definition errRespondAndLog :: "world \<Rightarrow> state \<Rightarrow> error \<Rightarrow> Response \<times> state" where
  "errRespondAndLog w s err =
     (let s1 = (if debug w then log_add (Println err) s else s)
      in (\<lparr>Response.Body = err, StatusCode = StatusInternalServerError\<rparr>, s1))"

subsection \<open>parseCloudEvent, isValidEvent, isStorageInAlarm\<close>

definition isValidEvent :: "cloudEvent \<Rightarrow> error option" where
  "isValidEvent event =
     (if (case AlarmStatusChangedEvent.Vm (Data event) of
            None \<Rightarrow> True
          | Some vm \<Rightarrow> Value (VmEventArgument.Vm vm) = '''')
      then Some ''empty VM managed object reference''
      else if AlarmEventArgument.Name (Alarm (Data event)) = '''' \<or> To (Data event) = ''''
      then Some ''insufficent alarm infomration''
      else None)"

definition parseCloudEvent :: "world \<Rightarrow> string \<Rightarrow> error + cloudEvent" where
  "parseCloudEvent w req =
     (case json_Unmarshal w req of
        Inl err \<Rightarrow> Inl (''unmarshalling json: '' @ err)
      | Inr event \<Rightarrow>
          (case isValidEvent event of
             Some err \<Rightarrow> Inl err
           | None \<Rightarrow> Inr event))"

definition isStorageInAlarm :: "cloudEvent \<Rightarrow> bool" where
  "isStorageInAlarm event =
     (let alarm = False;
          alarm = (if To (Data event) = ''red'' \<and>
                      (AlarmEventArgument.Name (Alarm (Data event)) = ''VM Memory Usage'' \<or>
                       AlarmEventArgument.Name (Alarm (Data event)) = ''VM CPU Usage'')
                   then True else alarm)
      in alarm)"

subsection \<open>loadTomlCfg and validateConfig\<close>

text \<open>
  \<^verbatim>\<open>validateConfig\<close> ranges over a three-entry map; the runtime picks the order. The keys
  are visited in the world's order (each once; a key the world does not list comes last).
\<close>

definition range_map :: "world \<Rightarrow> (string \<times> string) list \<Rightarrow> (string \<times> string) list" where
  "range_map w m =
     (let ks = remdups (filter (\<lambda>k. k \<in> set (map fst m)) (range_order w) @ map fst m)
      in map (\<lambda>k. (k, the (map_of m k))) ks)"

fun validateConfig_loop :: "(string \<times> string) list \<Rightarrow> error option" where
  "validateConfig_loop [] = None"
| "validateConfig_loop ((k, v) # kvs) =
     (if v = '''' then Some (''required field(s) missing in config, including '' @ k)
      else validateConfig_loop kvs)"

definition validateConfig :: "world \<Rightarrow> vcConfig \<Rightarrow> error option" where
  "validateConfig w cfg =
     (let reqFields =
            [(''vcenter server'', Server (VCenter cfg)),
             (''vcenter user'', VCenter_t.User (VCenter cfg)),
             (''vcenter password'', Password (VCenter cfg))]
      in validateConfig_loop (range_map w reqFields))"

definition loadTomlCfg :: "world \<Rightarrow> state \<Rightarrow> string \<Rightarrow> (error + vcConfig) \<times> state" where
  "loadTomlCfg w s path =
     (let s1 = call_add (Call_LoadFile path) s
      in case toml_LoadFile w path of
           Inl err \<Rightarrow> (Inl (''loading vcconfig.toml: '' @ err), s1)
         | Inr secret \<Rightarrow>
             (case toml_Unmarshal w secret of
                Inl err \<Rightarrow> (Inl (''unmarshalling vcconfig.toml: '' @ err), s1)
              | Inr cfg \<Rightarrow>
                  (case validateConfig w cfg of
                     Some err \<Rightarrow> (Inl err, s1)
                   | None \<Rightarrow> (Inr cfg, s1))))"

subsection \<open>newClient (client.go) and vsConnect\<close>

definition newClient :: "world \<Rightarrow> state \<Rightarrow> URL \<Rightarrow> bool \<Rightarrow> (error + vsClient) \<times> state" where
  "newClient w s u insecure =
     (let s1 = call_add (Call_NewClient u insecure) s
      in case govmomi_NewClient w u insecure of
           Inl err \<Rightarrow> (Inl (''connecting to govmomi api failed: '' @ err), s1)
         | Inr gc \<Rightarrow>
             (let rc = rest_NewClient gc;
                  s2 = call_add (Call_Login rc (URL.User u)) s1
              in case rest_Login w rc (URL.User u) of
                   Some err \<Rightarrow> (Inl (''log in to rest api failed: '' @ err), s2)
                 | None \<Rightarrow>
                     (Inr \<lparr>govmomi = gc, rest = rc, tagMgr = tags_NewManager rc\<rparr>, s2)))"

text \<open>The URL that \<^verbatim>\<open>vsConnect\<close> builds from the configuration.\<close>

definition sdkURL :: "vcConfig \<Rightarrow> URL" where
  "sdkURL cfg =
     \<lparr>Scheme = ''https'',
      URL.User = UserPassword (VCenter_t.User (VCenter cfg)) (Password (VCenter cfg)),
      Host = Server (VCenter cfg),
      Path = ''sdk''\<rparr>"

definition vsConnect :: "world \<Rightarrow> state \<Rightarrow> vcConfig \<Rightarrow> error option \<times> state" where
  "vsConnect w s cfg =
     (if client s = None then
        (let u = sdkURL cfg;
             insecure = Insecure (VCenter cfg);
             s1 = (if debug w then log_add (Println ''connecting to vSphere'') s else s)
         in case newClient w s1 u insecure of
              (Inl err, s2) \<Rightarrow> (Some (''connecting to vSphere API: '' @ err), s2)
            | (Inr c, s2) \<Rightarrow> (None, s2\<lparr>client := Some c\<rparr>))
      else (None, s))"

subsection \<open>eventVmMoRef and moVirtualMachine\<close>

text \<open>
  \<^verbatim>\<open>eventVmMoRef\<close> reads \<^verbatim>\<open>event.Data.Vm.Vm\<close> through the pointer \<^verbatim>\<open>event.Data.Vm\<close> and
  returns the address of a fresh reference together with a nil error.
\<close>

definition eventVmMoRef :: "cloudEvent \<Rightarrow> (ManagedObjectReference \<times> error option) outcome" where
  "eventVmMoRef event =
     (case AlarmStatusChangedEvent.Vm (Data event) of
        None \<Rightarrow> Panic nil_dereference
      | Some vm \<Rightarrow>
          (let moRef = \<lparr>Type = Type (VmEventArgument.Vm vm), Value = Value (VmEventArgument.Vm vm)\<rparr>
           in Returned (moRef, None)))"

text \<open>
  \<^verbatim>\<open>moVirtualMachine\<close> retrieves into a zero \<^verbatim>\<open>mo.VirtualMachine\<close>; an error of the
  retrieval is logged and the machine is returned as it is.
\<close>

definition moVirtualMachine ::
  "world \<Rightarrow> state \<Rightarrow> ManagedObjectReference \<Rightarrow> VirtualMachine outcome \<times> state" where
  "moVirtualMachine w s vmMOR =
     (let s1 = log_add (Printf_vmMOR vmMOR) s
      in case client s1 of
           None \<Rightarrow> (Panic nil_dereference, s1)
         | Some c \<Rightarrow>
             (let s2 = call_add (Call_Retrieve (govmomi c) vmMOR) s1;
                  (moVM, err) = pc_Retrieve w (govmomi c) vmMOR;
                  s3 = (case err of Some e \<Rightarrow> log_add (Printf_ERROR e) s2 | None \<Rightarrow> s2);
                  s4 = log_add (Printf_moVM moVM) s3
              in (Returned moVM, s4)))"

subsection \<open>The tier policy: catName, incCpuVal, incMemVal\<close>

definition catName :: "string \<Rightarrow> string" where
  "catName alarmName =
     (if alarmName = ''VM CPU Usage'' then ''config.hardware.numCPU''
      else if alarmName = ''VM Memory Usage'' then ''config.hardware.memoryMB''
      else '''')"

definition incCpuVal :: "64 word \<Rightarrow> string" where
  "incCpuVal numCPU =
     (let newNum = 4;
          numCPU = numCPU + 1;
          newNum = (if numCPU <s newNum then numCPU else newNum)
      in Itoa newNum)"

text \<open>The shift \<^verbatim>\<open>x << n\<close> with a signed count: a negative count panics.\<close>

definition shl :: "64 word \<Rightarrow> 64 word \<Rightarrow> 64 word outcome" where
  "shl x n = (if n <s 0 then Panic negative_shift else Returned (push_bit (unat n) x))"

definition incMemVal :: "world \<Rightarrow> float64 \<Rightarrow> string outcome" where
  "incMemVal w mem =
     (let maxExp = 23
      in case shl 1 maxExp of
           Panic p \<Rightarrow> Panic p
         | Returned newMem \<Rightarrow>
             (let exp = float64_to_int w (f64_div (math_Log10 w mem) (math_Log10 w (Finite 2)));
                  exp = exp + 1
              in if exp <s maxExp then
                   (case shl 1 exp of
                      Panic p \<Rightarrow> Panic p
                    | Returned newMem \<Rightarrow> Returned (Itoa newMem))
                 else Returned (Itoa newMem)))"

subsection \<open>findCatAndTagID and selectTag\<close>

fun findCatAndTagID :: "Tag list \<Rightarrow> string \<Rightarrow> string \<times> string" where
  "findCatAndTagID [] tn = ('''', '''')"
| "findCatAndTagID (t # ts) tn =
     (if Tag.Name t = tn then (CategoryID t, ID t) else findCatAndTagID ts tn)"

text \<open>
  \<^verbatim>\<open>selectTag\<close> reads \<^verbatim>\<open>moVM.Config.Hardware\<close> through the pointer \<^verbatim>\<open>moVM.Config\<close> and the tag
  manager through the global \<^verbatim>\<open>client\<close>. The result is \<open>(catID, tagID, err)\<close>.
\<close>

definition selectTag ::
  "world \<Rightarrow> state \<Rightarrow> cloudEvent \<Rightarrow> VirtualMachine \<Rightarrow> (string \<times> string \<times> error option) outcome \<times> state" where
  "selectTag w s ce moVM =
     (let cn = catName (AlarmEventArgument.Name (Alarm (Data ce)));
          tagName0 = '''';
          switch =
            (if cn = ''config.hardware.numCPU'' then
               (case Config moVM of
                  None \<Rightarrow> Panic nil_dereference
                | Some cfg \<Rightarrow> Returned (incCpuVal (int32_to_int (NumCPU (Hardware cfg)))))
             else if cn = ''config.hardware.memoryMB'' then
               (case Config moVM of
                  None \<Rightarrow> Panic nil_dereference
                | Some cfg \<Rightarrow> incMemVal w (int32_to_float64 (MemoryMB (Hardware cfg))))
             else Returned tagName0)
      in case switch of
           Panic p \<Rightarrow> (Panic p, s)
         | Returned tagName \<Rightarrow>
             (case client s of
                None \<Rightarrow> (Panic nil_dereference, s)
              | Some c \<Rightarrow>
                  (let s1 = call_add (Call_GetTagsForCategory (tagMgr c) cn) s
                   in case GetTagsForCategory w (tagMgr c) cn of
                        Inl err \<Rightarrow> (Returned ('''', '''', Some err), s1)
                      | Inr tagList \<Rightarrow>
                          (let (catID, tagID) = findCatAndTagID tagList tagName
                           in (Returned (catID, tagID, None), s1)))))"

subsection \<open>Handle\<close>

text \<open>
  \<open>return_err w s prefix err\<close> is the statement
  \<^verbatim>\<open>return errRespondAndLog(fmt.Errorf(prefix + "%w", err)), err\<close>: the response carries the
  wrapped text, the second result is the error itself.
\<close>

definition return_err ::
  "world \<Rightarrow> state \<Rightarrow> string \<Rightarrow> error \<Rightarrow> (Response \<times> error option) outcome \<times> state" where
  "return_err w s prefix err =
     (let (r, s1) = errRespondAndLog w s (prefix @ err) in (Returned (r, Some err), s1))"

definition return_ok ::
  "state \<Rightarrow> string \<Rightarrow> (Response \<times> error option) outcome \<times> state" where
  "return_ok s message =
     (Returned (\<lparr>Response.Body = message, StatusCode = StatusOK\<rparr>, None),
      log_add (Println message) s)"

text \<open>
  The part of \<^verbatim>\<open>Handle\<close> after the machine was retrieved: select the tag, attach it, answer.
\<close>

definition Handle_tag ::
  "world \<Rightarrow> state \<Rightarrow> cloudEvent \<Rightarrow> ManagedObjectReference \<Rightarrow> VirtualMachine \<Rightarrow>
   (Response \<times> error option) outcome \<times> state" where
  "Handle_tag w s cloudEvt vmMOR moVM =
     (case selectTag w s cloudEvt moVM of
        (Panic p, s1) \<Rightarrow> (Panic p, s1)
      | (Returned (catID, tagID, Some err), s1) \<Rightarrow>
          return_err w s1 ''retrieving VM managed reference object: '' err
      | (Returned (catID, tagID, None), s1) \<Rightarrow>
          (case client s1 of
             None \<Rightarrow> (Panic nil_dereference, s1)
           | Some c \<Rightarrow>
               (let s2 = call_add (Call_AttachTag (tagMgr c) tagID vmMOR) s1
                in case AttachTag w (tagMgr c) tagID vmMOR of
                     Some err \<Rightarrow>
                       (let wrapErr = ''tagging managed reference object: '' @ err;
                            s3 = (if debug w then log_add (Println wrapErr) s2 else s2)
                        in return_err w s3 ''tagging managed reference object: '' err)
                   | None \<Rightarrow>
                       return_ok s2
                         (Value vmMOR @ '' was tagged with '' @ tagID @ '', '' @ catID))))"

definition Handle ::
  "world \<Rightarrow> state \<Rightarrow> Request \<Rightarrow> (Response \<times> error option) outcome \<times> state" where
  "Handle w s req =
     (case parseCloudEvent w (Request.Body req) of
        Inl err \<Rightarrow> return_err w s ''parsing cloud event data: '' err
      | Inr cloudEvt \<Rightarrow>
          if \<not> isStorageInAlarm cloudEvt then
            return_ok s ''Alert not for CPU/Memory in red, nothing to do.''
          else
            (case loadTomlCfg w s cfgPath of
               (Inl err, s1) \<Rightarrow> return_err w s1 ''loading of vcconfig: '' err
             | (Inr cfg, s1) \<Rightarrow>
                 (case vsConnect w s1 cfg of
                    (Some err, s2) \<Rightarrow> return_err w s2 ''connecting to vSphere: '' err
                  | (None, s2) \<Rightarrow>
                      (let s3 = s2\<lparr>once := True\<rparr>
                       in case eventVmMoRef cloudEvt of
                            Panic p \<Rightarrow> (Panic p, s3)
                          | Returned (vmMOR, Some err) \<Rightarrow>
                              return_err w s3 ''retrieving VM managed reference object: '' err
                          | Returned (vmMOR, None) \<Rightarrow>
                              (case moVirtualMachine w s3 vmMOR of
                                 (Panic p, s4) \<Rightarrow> (Panic p, s4)
                               | (Returned moVM, s4) \<Rightarrow>
                                   Handle_tag w s4 cloudEvt vmMOR moVM)))))"

text \<open>
  The shape of an answer of \<^verbatim>\<open>Handle\<close>: status 200 with a nil error, or status 500 with
  an error whose text ends the body.
\<close>

definition answer_shape :: "(Response \<times> error option) outcome \<Rightarrow> bool" where
  "answer_shape out =
     (case out of
        Panic p \<Rightarrow> True
      | Returned (r, e) \<Rightarrow>
          (case e of
             None \<Rightarrow> StatusCode r = StatusOK
           | Some err \<Rightarrow>
               StatusCode r = StatusInternalServerError \<and> (\<exists>prefix. Response.Body r = prefix @ err)))"

section \<open>A concrete world\<close>

text \<open>
  End-to-end scenario A of the specification: the machine \<^verbatim>\<open>vm-42\<close> raises the alarm
  \<^verbatim>\<open>VM CPU Usage\<close> at level \<^verbatim>\<open>red\<close>; it has 2 CPUs and 4096 MB; the category holds the tags
  named 3 and 4. Every call to a collaborator succeeds.
\<close>

definition vm42 :: ManagedObjectReference where
  "vm42 = \<lparr>Type = ''VirtualMachine'', Value = ''vm-42''\<rparr>"

definition event_of :: "string \<Rightarrow> string \<Rightarrow> cloudEvent" where
  "event_of alarm level =
     \<lparr>Data = \<lparr>AlarmStatusChangedEvent.Vm = Some \<lparr>VmEventArgument.Vm = vm42\<rparr>,
              Alarm = \<lparr>AlarmEventArgument.Name = alarm\<rparr>,
              To = level\<rparr>\<rparr>"

definition cpu_red :: cloudEvent where
  "cpu_red = event_of ''VM CPU Usage'' ''red''"

definition no_vm_event :: cloudEvent where
  "no_vm_event =
     \<lparr>Data = \<lparr>AlarmStatusChangedEvent.Vm = None,
              Alarm = \<lparr>AlarmEventArgument.Name = ''VM CPU Usage''\<rparr>,
              To = ''red''\<rparr>\<rparr>"

definition vc :: vcConfig where
  "vc = \<lparr>VCenter = \<lparr>Server = ''vc.example.com'', VCenter_t.User = ''admin'',
                     Password = ''secret'', Insecure = True\<rparr>\<rparr>"

definition vm_2cpu :: VirtualMachine where
  "vm_2cpu = \<lparr>Config = Some \<lparr>Hardware = \<lparr>NumCPU = 2, MemoryMB = 4096\<rparr>\<rparr>\<rparr>"

definition cpu_tags :: "Tag list" where
  "cpu_tags =
     [\<lparr>ID = ''tag-3'', Tag.Name = ''3'', CategoryID = ''cat-cpu''\<rparr>,
      \<lparr>ID = ''tag-4'', Tag.Name = ''4'', CategoryID = ''cat-cpu''\<rparr>]"

definition world_A :: world where
  "world_A =
     \<lparr>getenv = (\<lambda>name. ''''),
      json_Unmarshal = (\<lambda>body. Inr cpu_red),
      toml_LoadFile = (\<lambda>path. Inr ''[vcenter]''),
      toml_Unmarshal = (\<lambda>tree. Inr vc),
      range_order = [''vcenter user'', ''vcenter server'', ''vcenter password''],
      math_Log10 = go_Log10,
      int_unrepresentable = (\<lambda>x. 0x8000000000000000),
      govmomi_NewClient = (\<lambda>u insecure. Inr 1),
      rest_Login = (\<lambda>rc user. None),
      pc_Retrieve = (\<lambda>gc mor. (vm_2cpu, None)),
      GetTagsForCategory = (\<lambda>tm cat. Inr cpu_tags),
      AttachTag = (\<lambda>tm tagID mor. None)\<rparr>"

definition init :: state where
  "init = \<lparr>client = None, once = False, logged = [], calls = []\<rparr>"

definition session1 :: vsClient where
  "session1 = \<lparr>govmomi = 1, rest = rest_NewClient 1, tagMgr = tags_NewManager (rest_NewClient 1)\<rparr>"

definition with_session :: state where
  "with_session = init\<lparr>client := Some session1\<rparr>"

definition request :: Request where
  "request = \<lparr>Request.Body = ''payload''\<rparr>"

text \<open>Variations of the scenario.\<close>

definition world_green :: world where
  "world_green = world_A\<lparr>json_Unmarshal := (\<lambda>body. Inr (event_of ''VM CPU Usage'' ''green''))\<rparr>"

definition world_no_config :: world where
  "world_no_config =
     world_A\<lparr>pc_Retrieve := (\<lambda>gc mor. (\<lparr>Config = None\<rparr>, Some ''ManagedObjectNotFound''))\<rparr>"

definition world_no_tag :: world where
  "world_no_tag =
     world_A\<lparr>GetTagsForCategory := (\<lambda>tm cat. Inr []),
             AttachTag := (\<lambda>tm tagID mor. if tagID = '''' then Some ''404 Not Found'' else None)\<rparr>"

definition world_login_fails :: world where
  "world_login_fails = world_A\<lparr>rest_Login := (\<lambda>rc user. Some ''401 Unauthorized'')\<rparr>"

definition world_debug :: world where
  "world_debug = world_login_fails\<lparr>getenv := (\<lambda>name. if name = ''write_debug'' then ''true'' else '''')\<rparr>"

definition vm_4cpu :: VirtualMachine where
  "vm_4cpu = \<lparr>Config = Some \<lparr>Hardware = \<lparr>NumCPU = 4, MemoryMB = 4096\<rparr>\<rparr>\<rparr>"

text \<open>Scenario B: the machine already has 4 CPUs.\<close>

definition world_B :: world where
  "world_B = world_A\<lparr>pc_Retrieve := (\<lambda>gc mor. (vm_4cpu, None))\<rparr>"

text \<open>The memory alarm of the same machine (4096 MB); the category holds the tag 8192.\<close>

definition mem_tags :: "Tag list" where
  "mem_tags = [\<lparr>ID = ''tag-8192'', Tag.Name = ''8192'', CategoryID = ''cat-mem''\<rparr>]"

definition world_mem :: world where
  "world_mem =
     world_A\<lparr>json_Unmarshal := (\<lambda>body. Inr (event_of ''VM Memory Usage'' ''red'')),
             GetTagsForCategory := (\<lambda>tm cat. Inr mem_tags)\<rparr>"

text \<open>The memory alarm of a machine with 2048 MB; the category holds the tags 2048 and 4096.\<close>

definition vm_2048 :: VirtualMachine where
  "vm_2048 = \<lparr>Config = Some \<lparr>Hardware = \<lparr>NumCPU = 2, MemoryMB = 2048\<rparr>\<rparr>\<rparr>"

definition mem_tags_2048 :: "Tag list" where
  "mem_tags_2048 =
     [\<lparr>ID = ''tag-2048'', Tag.Name = ''2048'', CategoryID = ''cat-mem''\<rparr>,
      \<lparr>ID = ''tag-4096'', Tag.Name = ''4096'', CategoryID = ''cat-mem''\<rparr>]"

definition world_mem_2048 :: world where
  "world_mem_2048 =
     world_A\<lparr>json_Unmarshal := (\<lambda>body. Inr (event_of ''VM Memory Usage'' ''red'')),
             pc_Retrieve := (\<lambda>gc mor. (vm_2048, None)),
             GetTagsForCategory := (\<lambda>tm cat. Inr mem_tags_2048)\<rparr>"

text \<open>A payload that does not deserialize.\<close>

definition world_malformed :: world where
  "world_malformed = world_A\<lparr>json_Unmarshal := (\<lambda>body. Inl ''unexpected end of JSON input'')\<rparr>"

section \<open>Evaluation rules\<close>

lemma digits_small: "n < 10 \<Longrightarrow> digits n = [''0123456789'' ! n]"
  by (simp add: digits.simps)

lemma digits_large: "\<not> n < 10 \<Longrightarrow> digits n = digits (n div 10) @ [''0123456789'' ! (n mod 10)]"
  by (subst digits.simps) simp

lemmas digits_eval = digits_small digits_large

section \<open>The CPU policy\<close>

lemma sint_plus_one:
  fixes n :: "64 word"
  assumes "sint n < 2 ^ 63 - 1"
  shows "sint (n + 1) = sint n + 1"
proof -
  have lo: "- (2 ^ 63) \<le> sint n"
    using sint_ge [of n] by simp
  have "sint (n + 1) = signed_take_bit 63 (sint n + 1)"
    by (simp add: sint_word_ariths)
  also have "\<dots> = sint n + 1"
    using assms lo by (simp add: signed_take_bit_int_eq_self)
  finally show ?thesis .
qed

text \<open>
  C4, as amended. Go's \<^verbatim>\<open>int\<close> is 64 bits wide: for every CPU count \<open>n\<close> with
  \<open>0 \<le> n < 2^63 - 1\<close> (every \<^verbatim>\<open>int32\<close> value of \<^verbatim>\<open>NumCPU\<close> that \<^verbatim>\<open>selectTag\<close> passes is one),
  \<^verbatim>\<open>incCpuVal\<close> returns the decimal string of \<open>min (n + 1) 4\<close>; and
  \<^verbatim>\<open>incCpuVal(3) = "4"\<close>, \<^verbatim>\<open>incCpuVal(10) = "4"\<close>.
\<close>

theorem incCpuVal_min:
  fixes n :: "64 word"
  assumes "0 \<le> sint n" and "sint n < 2 ^ 63 - 1"
  shows "incCpuVal n = decimal (min (sint n + 1) 4)
       \<and> incCpuVal 3 = ''4'' \<and> incCpuVal 10 = ''4''"
proof -
  have step: "sint (n + 1) = sint n + 1"
    using assms(2) by (rule sint_plus_one)
  have general: "incCpuVal n = decimal (min (sint n + 1) 4)"
  proof (cases "sint n + 1 < 4")
    case True
    then show ?thesis
      by (simp add: incCpuVal_def Itoa_def word_sless_alt step min_def)
  next
    case False
    then show ?thesis
      by (simp add: incCpuVal_def Itoa_def word_sless_alt step min_def)
  qed
  have three: "incCpuVal 3 = ''4''"
    by (simp add: incCpuVal_def Itoa_def decimal_def word_sless_alt digits_eval)
  have ten: "incCpuVal 10 = ''4''"
    by (simp add: incCpuVal_def Itoa_def decimal_def word_sless_alt digits_eval)
  from general three ten show ?thesis by simp
qed

theorem incCpuVal_min_witness:
  "incCpuVal 2 = ''3'' \<and> incCpuVal 3 = ''4'' \<and> incCpuVal 10 = ''4''"
proof -
  have "incCpuVal 2 = decimal (min (sint (2 :: 64 word) + 1) 4)
      \<and> incCpuVal 3 = ''4'' \<and> incCpuVal 10 = ''4''"
    by (rule incCpuVal_min) simp_all
  then show ?thesis
    by (simp add: decimal_def digits_eval)
qed

text \<open>
  The claim as stated, for every \<open>n \<ge> 0\<close>, fails at the largest \<^verbatim>\<open>int\<close>: the increment
  wraps around to the smallest one, which is below 4 and is what gets printed.
\<close>

theorem incCpuVal_max_int_counterexample:
  "0 \<le> sint (0x7FFFFFFFFFFFFFFF :: 64 word)
   \<and> incCpuVal 0x7FFFFFFFFFFFFFFF = ''-9223372036854775808''
   \<and> decimal (min (sint (0x7FFFFFFFFFFFFFFF :: 64 word) + 1) 4) = ''4''"
  by (simp add: incCpuVal_def Itoa_def decimal_def word_sless_alt digits_eval)

section \<open>The alarm classifier\<close>

text \<open>
  C5. \<^verbatim>\<open>isStorageInAlarm\<close> is true if and only if the new level is \<^verbatim>\<open>red\<close> and the alarm's
  name is \<^verbatim>\<open>VM CPU Usage\<close> or \<^verbatim>\<open>VM Memory Usage\<close>; in particular it is false for a red alarm
  of another name and for a recognized alarm at another level.
\<close>

theorem isStorageInAlarm_iff:
  "isStorageInAlarm event =
     (To (Data event) = ''red'' \<and>
      (AlarmEventArgument.Name (Alarm (Data event)) = ''VM CPU Usage'' \<or>
       AlarmEventArgument.Name (Alarm (Data event)) = ''VM Memory Usage''))
   \<and> \<not> isStorageInAlarm (event_of ''VM Disk Usage'' ''red'')
   \<and> \<not> isStorageInAlarm (event_of ''VM CPU Usage'' ''green'')
   \<and> \<not> isStorageInAlarm (event_of ''VM Memory Usage'' ''yellow'')
   \<and> isStorageInAlarm (event_of ''VM CPU Usage'' ''red'')
   \<and> isStorageInAlarm (event_of ''VM Memory Usage'' ''red'')"
  by (auto simp add: isStorageInAlarm_def event_of_def)

section \<open>The event validator\<close>

text \<open>
  C6. \<^verbatim>\<open>parseCloudEvent\<close> is a function of the payload alone (it takes and returns no
  state). It fails exactly when the payload does not deserialize, or the event's \<^verbatim>\<open>Vm\<close> is
  absent or its reference's identifier is empty, or the alarm's name or the new level is
  empty; for every other payload it returns the deserialized event.
\<close>

theorem parseCloudEvent_fails_iff:
  "(\<exists>err. parseCloudEvent w req = Inl err) =
     (case json_Unmarshal w req of
        Inl err \<Rightarrow> True
      | Inr event \<Rightarrow>
          AlarmStatusChangedEvent.Vm (Data event) = None
          \<or> (\<exists>vm. AlarmStatusChangedEvent.Vm (Data event) = Some vm \<and> Value (VmEventArgument.Vm vm) = '''')
          \<or> AlarmEventArgument.Name (Alarm (Data event)) = ''''
          \<or> To (Data event) = '''')
   \<and> ((\<nexists>err. parseCloudEvent w req = Inl err) =
        (\<exists>event. json_Unmarshal w req = Inr event \<and> parseCloudEvent w req = Inr event))"
  by (cases "json_Unmarshal w req")
     (auto simp add: parseCloudEvent_def isValidEvent_def split: option.splits)

lemmas handler_defs =
  Handle_def Handle_tag_def return_err_def return_ok_def errRespondAndLog_def debug_def
  parseCloudEvent_def isValidEvent_def isStorageInAlarm_def
  loadTomlCfg_def validateConfig_def range_map_def
  vsConnect_def newClient_def sdkURL_def UserPassword_def
  eventVmMoRef_def moVirtualMachine_def selectTag_def catName_def
  log_add_def call_add_def StatusOK_def StatusInternalServerError_def cfgPath_def Let_def

lemmas scenario_defs =
  world_A_def world_green_def world_no_config_def world_no_tag_def world_login_fails_def
  world_debug_def init_def with_session_def session1_def request_def
  cpu_red_def event_of_def vm42_def vc_def vm_2cpu_def cpu_tags_def

lemmas incCpuVal_eval =
  incCpuVal_def Itoa_def decimal_def int32_to_int_def word_sless_alt digits_eval

section \<open>The connection manager\<close>

text \<open>
  C7. When no session exists and the creation fails at either step (\<^verbatim>\<open>govmomi.NewClient\<close>
  or the REST login), \<^verbatim>\<open>vsConnect\<close> returns the wrapped error and the global \<^verbatim>\<open>client\<close> is
  still nil. When a session exists, \<^verbatim>\<open>vsConnect\<close> returns nil and the state is the one it
  was called in: no call to the service, no log line, the same \<^verbatim>\<open>client\<close>.
\<close>

theorem vsConnect_all_or_nothing:
  "(client s = None \<longrightarrow>
      (\<forall>err. govmomi_NewClient w (sdkURL cfg) (Insecure (VCenter cfg)) = Inl err \<longrightarrow>
         fst (vsConnect w s cfg) =
           Some (''connecting to vSphere API: connecting to govmomi api failed: '' @ err)
         \<and> client (snd (vsConnect w s cfg)) = None)
    \<and> (\<forall>gc err. govmomi_NewClient w (sdkURL cfg) (Insecure (VCenter cfg)) = Inr gc \<longrightarrow>
         rest_Login w (rest_NewClient gc) (URL.User (sdkURL cfg)) = Some err \<longrightarrow>
         fst (vsConnect w s cfg) =
           Some (''connecting to vSphere API: log in to rest api failed: '' @ err)
         \<and> client (snd (vsConnect w s cfg)) = None))
   \<and> (\<forall>c. client s = Some c \<longrightarrow> vsConnect w s cfg = (None, s))"
  by (simp add: vsConnect_def newClient_def call_add_def log_add_def Let_def)

theorem vsConnect_all_or_nothing_witness:
  "client init = None
   \<and> govmomi_NewClient world_login_fails (sdkURL vc) (Insecure (VCenter vc)) = Inr 1
   \<and> rest_Login world_login_fails (rest_NewClient 1) (URL.User (sdkURL vc)) = Some ''401 Unauthorized''
   \<and> fst (vsConnect world_login_fails init vc) =
       Some ''connecting to vSphere API: log in to rest api failed: 401 Unauthorized''
   \<and> client (snd (vsConnect world_login_fails init vc)) = None
   \<and> client with_session = Some session1
   \<and> vsConnect world_login_fails with_session vc = (None, with_session)"
  using vsConnect_all_or_nothing [of init world_login_fails vc]
    vsConnect_all_or_nothing [of with_session world_login_fails vc]
  by (simp add: init_def with_session_def world_login_fails_def world_A_def)

section \<open>The orchestrator\<close>

text \<open>
  C8. For a well-formed notification that is not actionable, \<^verbatim>\<open>Handle\<close> answers with status
  200 and the message \<^verbatim>\<open>Alert not for CPU/Memory in red, nothing to do.\<close> and a nil error; the
  only change of state is the log line: \<^verbatim>\<open>client\<close> and \<^verbatim>\<open>once\<close> are as before and no call
  was made (the configuration was not loaded, no session was created).
\<close>

theorem Handle_not_actionable:
  assumes "parseCloudEvent w (Request.Body req) = Inr event"
    and "\<not> isStorageInAlarm event"
  shows "Handle w s req =
           (Returned (\<lparr>Response.Body = ''Alert not for CPU/Memory in red, nothing to do.'',
                       StatusCode = 200\<rparr>, None),
            s\<lparr>logged := logged s @ [Println ''Alert not for CPU/Memory in red, nothing to do.'']\<rparr>)
         \<and> client (snd (Handle w s req)) = client s
         \<and> calls (snd (Handle w s req)) = calls s
         \<and> once (snd (Handle w s req)) = once s"
  using assms by (simp add: Handle_def return_ok_def log_add_def StatusOK_def)

theorem Handle_not_actionable_witness:
  "parseCloudEvent world_green (Request.Body request) = Inr (event_of ''VM CPU Usage'' ''green'')
   \<and> \<not> isStorageInAlarm (event_of ''VM CPU Usage'' ''green'')
   \<and> fst (Handle world_green init request) =
        Returned (\<lparr>Response.Body = ''Alert not for CPU/Memory in red, nothing to do.'',
                   StatusCode = 200\<rparr>, None)
   \<and> client (snd (Handle world_green init request)) = None
   \<and> calls (snd (Handle world_green init request)) = []"
proof -
  have p: "parseCloudEvent world_green (Request.Body request) = Inr (event_of ''VM CPU Usage'' ''green'')"
    by (simp add: parseCloudEvent_def isValidEvent_def world_green_def event_of_def vm42_def)
  have a: "\<not> isStorageInAlarm (event_of ''VM CPU Usage'' ''green'')"
    by (simp add: isStorageInAlarm_def event_of_def)
  from Handle_not_actionable [OF p a, of init] p a show ?thesis
    by (simp add: init_def)
qed

text \<open>
  C10, as amended. For every cloud event whose \<^verbatim>\<open>Vm\<close> is present, \<^verbatim>\<open>eventVmMoRef\<close> returns
  the reference built from \<^verbatim>\<open>Vm.Vm.Type\<close> and \<^verbatim>\<open>Vm.Vm.Value\<close> and a nil error; every event
  that \<^verbatim>\<open>parseCloudEvent\<close> returned is such an event, so in \<^verbatim>\<open>Handle\<close> the call neither
  fails nor panics and the error branch after it is not taken.
\<close>

theorem eventVmMoRef_valid:
  "(\<forall>vm. AlarmStatusChangedEvent.Vm (Data event) = Some vm \<longrightarrow>
      eventVmMoRef event =
        Returned (\<lparr>Type = Type (VmEventArgument.Vm vm), Value = Value (VmEventArgument.Vm vm)\<rparr>, None))
   \<and> (parseCloudEvent w req = Inr event \<longrightarrow>
        (\<exists>vmMOR. eventVmMoRef event = Returned (vmMOR, None)))"
  by (auto simp add: eventVmMoRef_def parseCloudEvent_def isValidEvent_def
      split: sum.splits option.splits if_splits)

theorem eventVmMoRef_valid_witness:
  "AlarmStatusChangedEvent.Vm (Data cpu_red) = Some \<lparr>VmEventArgument.Vm = vm42\<rparr>
   \<and> parseCloudEvent world_A ''payload'' = Inr cpu_red
   \<and> eventVmMoRef cpu_red = Returned (\<lparr>Type = ''VirtualMachine'', Value = ''vm-42''\<rparr>, None)"
  using eventVmMoRef_valid [of cpu_red world_A "''payload''"]
  by (simp add: cpu_red_def event_of_def vm42_def parseCloudEvent_def isValidEvent_def world_A_def)

text \<open>
  The claim as stated, for every cloud event, fails for an event without \<^verbatim>\<open>Vm\<close>: the
  function dereferences the nil pointer.
\<close>

theorem eventVmMoRef_nil_counterexample:
  "AlarmStatusChangedEvent.Vm (Data no_vm_event) = None
   \<and> eventVmMoRef no_vm_event = Panic nil_dereference"
  by (simp add: eventVmMoRef_def no_vm_event_def)

text \<open>
  C2. The machine is retrieved without its configuration (\<^verbatim>\<open>Config\<close> is nil, here together
  with an error of the retrieval, which \<^verbatim>\<open>moVirtualMachine\<close> only logs). \<^verbatim>\<open>selectTag\<close> reads
  \<^verbatim>\<open>moVM.Config.Hardware.NumCPU\<close> and the invocation ends in a nil dereference; no response
  is produced.
\<close>

theorem Handle_no_config_panics:
  "fst (pc_Retrieve world_no_config 1 vm42) = \<lparr>Config = None\<rparr>
   \<and> fst (Handle world_no_config init request) = Panic nil_dereference"
  by (simp add: handler_defs scenario_defs)

section \<open>The tag resolver and the empty tag\<close>

lemma findCatAndTagID_no_match:
  "\<forall>t \<in> set ts. Tag.Name t \<noteq> tn \<Longrightarrow> findCatAndTagID ts tn = ('''', '''')"
  by (induction ts) simp_all

text \<open>
  C3, as amended. When no tag of the list has the name looked for, \<^verbatim>\<open>findCatAndTagID\<close>
  returns the empty category and tag identifiers (and no error). When \<^verbatim>\<open>selectTag\<close> returns
  empty identifiers and a nil error, \<^verbatim>\<open>Handle\<close> goes on to call \<^verbatim>\<open>AttachTag\<close> with the empty
  tag identifier: if the call fails the answer is the internal-error response
  \<^verbatim>\<open>tagging managed reference object: <error>\<close>, and if it succeeds the answer is the success
  response \<^verbatim>\<open><vm> was tagged with , \<close>.
\<close>

theorem Handle_no_matching_tag:
  assumes "parseCloudEvent w (Request.Body req) = Inr ev"
    and "isStorageInAlarm ev"
    and "loadTomlCfg w s cfgPath = (Inr cfg, s1)"
    and "vsConnect w s1 cfg = (None, s2)"
    and "eventVmMoRef ev = Returned (vmMOR, None)"
    and "moVirtualMachine w (s2\<lparr>once := True\<rparr>) vmMOR = (Returned moVM, s3)"
    and "selectTag w s3 ev moVM = (Returned ('''', '''', None), s4)"
    and "client s4 = Some c"
  shows "((\<forall>t \<in> set ts. Tag.Name t \<noteq> tn) \<longrightarrow> findCatAndTagID ts tn = ('''', ''''))
       \<and> fst (Handle w s req) =
           (case AttachTag w (tagMgr c) '''' vmMOR of
              Some err \<Rightarrow>
                Returned (\<lparr>Response.Body = ''tagging managed reference object: '' @ err,
                           StatusCode = 500\<rparr>, Some err)
            | None \<Rightarrow>
                Returned (\<lparr>Response.Body = Value vmMOR @ '' was tagged with , '',
                           StatusCode = 200\<rparr>, None))
       \<and> calls (snd (Handle w s req)) = calls s4 @ [Call_AttachTag (tagMgr c) '''' vmMOR]"
proof -
  have tail: "Handle w s req = Handle_tag w s3 ev vmMOR moVM"
    using assms(1-6) by (simp add: Handle_def)
  have "fst (Handle_tag w s3 ev vmMOR moVM) =
           (case AttachTag w (tagMgr c) '''' vmMOR of
              Some err \<Rightarrow>
                Returned (\<lparr>Response.Body = ''tagging managed reference object: '' @ err,
                           StatusCode = 500\<rparr>, Some err)
            | None \<Rightarrow>
                Returned (\<lparr>Response.Body = Value vmMOR @ '' was tagged with , '',
                           StatusCode = 200\<rparr>, None))"
    using assms(7,8)
    by (simp add: Handle_tag_def return_err_def return_ok_def errRespondAndLog_def
        StatusOK_def StatusInternalServerError_def call_add_def log_add_def Let_def
        split: option.splits)
  moreover have "calls (snd (Handle_tag w s3 ev vmMOR moVM)) =
      calls s4 @ [Call_AttachTag (tagMgr c) '''' vmMOR]"
    using assms(7,8)
    by (simp add: Handle_tag_def return_err_def return_ok_def errRespondAndLog_def
        call_add_def log_add_def Let_def split: option.splits)
  ultimately show ?thesis
    using tail findCatAndTagID_no_match [of ts tn] by simp
qed

theorem Handle_no_matching_tag_witness:
  "parseCloudEvent world_no_tag (Request.Body request) = Inr cpu_red
   \<and> isStorageInAlarm cpu_red
   \<and> findCatAndTagID [] ''3'' = ('''', '''')
   \<and> AttachTag world_no_tag (tagMgr session1) '''' vm42 = Some ''404 Not Found''
   \<and> fst (Handle world_no_tag init request) =
       Returned (\<lparr>Response.Body = ''tagging managed reference object: 404 Not Found'',
                  StatusCode = 500\<rparr>, Some ''404 Not Found'')"
proof -
  define s1 where "s1 = snd (loadTomlCfg world_no_tag init cfgPath)"
  define s2 where "s2 = snd (vsConnect world_no_tag s1 vc)"
  define s3 where "s3 = snd (moVirtualMachine world_no_tag (s2\<lparr>once := True\<rparr>) vm42)"
  define s4 where "s4 = snd (selectTag world_no_tag s3 cpu_red vm_2cpu)"
  have h1: "parseCloudEvent world_no_tag (Request.Body request) = Inr cpu_red"
    by (simp add: handler_defs scenario_defs)
  have h2: "isStorageInAlarm cpu_red"
    by (simp add: handler_defs scenario_defs)
  have h3: "loadTomlCfg world_no_tag init cfgPath = (Inr vc, s1)"
    unfolding s1_def by (simp add: handler_defs scenario_defs)
  have h4: "vsConnect world_no_tag s1 vc = (None, s2)"
    unfolding s1_def s2_def by (simp add: handler_defs scenario_defs)
  have h5: "eventVmMoRef cpu_red = Returned (vm42, None)"
    by (simp add: handler_defs scenario_defs)
  have h6: "moVirtualMachine world_no_tag (s2\<lparr>once := True\<rparr>) vm42 = (Returned vm_2cpu, s3)"
    unfolding s1_def s2_def s3_def by (simp add: handler_defs scenario_defs)
  have h7: "selectTag world_no_tag s3 cpu_red vm_2cpu = (Returned ('''', '''', None), s4)"
    unfolding s1_def s2_def s3_def s4_def by (simp add: handler_defs scenario_defs incCpuVal_eval)
  have h8: "client s4 = Some session1"
    unfolding s1_def s2_def s3_def s4_def by (simp add: handler_defs scenario_defs incCpuVal_eval)
  have a: "AttachTag world_no_tag (tagMgr session1) '''' vm42 = Some ''404 Not Found''"
    by (simp add: scenario_defs)
  from Handle_no_matching_tag [OF h1 h2 h3 h4 h5 h6 h7 h8, of "[]" "''3''"] h1 h2 a
  show ?thesis by simp
qed

text \<open>
  The claim as stated fails: the lookup finds no tag named 3, \<^verbatim>\<open>selectTag\<close> returns empty
  identifiers and no error, and \<^verbatim>\<open>Handle\<close> calls \<^verbatim>\<open>AttachTag\<close> with the empty identifier; the
  service refuses it and the answer is an error with status 500.
\<close>

theorem Handle_no_tag_counterexample:
  "fst (selectTag world_no_tag
          (snd (moVirtualMachine world_no_tag (with_session\<lparr>once := True\<rparr>) vm42))
          cpu_red vm_2cpu) = Returned ('''', '''', None)
   \<and> fst (Handle world_no_tag init request) =
       Returned (\<lparr>Response.Body = ''tagging managed reference object: 404 Not Found'',
                  StatusCode = 500\<rparr>, Some ''404 Not Found'')
   \<and> Call_AttachTag (tagMgr session1) '''' vm42 \<in> set (calls (snd (Handle world_no_tag init request)))"
  by (simp add: handler_defs scenario_defs incCpuVal_eval)

section \<open>The verbose-logging toggle\<close>

text \<open>
  The environment is read only by \<^verbatim>\<open>debug\<close>, and \<^verbatim>\<open>debug\<close> only decides whether a line is
  logged: every step of \<^verbatim>\<open>Handle\<close> returns the same result in any environment, from states that
  differ at most in the log, and leaves such states.
\<close>

lemma log_equiv_refl: "log_equiv s s"
  by (simp add: log_equiv_def)

lemma parseCloudEvent_env: "parseCloudEvent (w\<lparr>getenv := g\<rparr>) body = parseCloudEvent w body"
  by (simp add: parseCloudEvent_def)

lemma return_err_env:
  assumes "log_equiv s t"
  shows "fst (return_err (w\<lparr>getenv := g\<rparr>) s p e) = fst (return_err w t p e)
       \<and> log_equiv (snd (return_err (w\<lparr>getenv := g\<rparr>) s p e)) (snd (return_err w t p e))"
  using assms
  by (simp add: return_err_def errRespondAndLog_def log_add_def log_equiv_def Let_def)

lemma return_ok_env:
  assumes "log_equiv s t"
  shows "fst (return_ok s m) = fst (return_ok t m)
       \<and> log_equiv (snd (return_ok s m)) (snd (return_ok t m))"
  using assms by (simp add: return_ok_def log_add_def log_equiv_def)

lemma validateConfig_env: "validateConfig (w\<lparr>getenv := g\<rparr>) cfg = validateConfig w cfg"
  by (simp add: validateConfig_def range_map_def)

lemma loadTomlCfg_env:
  assumes "log_equiv s t"
  shows "fst (loadTomlCfg (w\<lparr>getenv := g\<rparr>) s p) = fst (loadTomlCfg w t p)
       \<and> log_equiv (snd (loadTomlCfg (w\<lparr>getenv := g\<rparr>) s p)) (snd (loadTomlCfg w t p))"
  using assms
  by (simp add: loadTomlCfg_def validateConfig_env call_add_def log_equiv_def Let_def
      split: sum.splits option.splits)

lemma newClient_env:
  assumes "log_equiv s t"
  shows "fst (newClient (w\<lparr>getenv := g\<rparr>) s u i) = fst (newClient w t u i)
       \<and> log_equiv (snd (newClient (w\<lparr>getenv := g\<rparr>) s u i)) (snd (newClient w t u i))"
  using assms
  by (simp add: newClient_def call_add_def log_equiv_def Let_def
      split: sum.splits option.splits)

lemma vsConnect_env:
  assumes "log_equiv s t"
  shows "fst (vsConnect (w\<lparr>getenv := g\<rparr>) s cfg) = fst (vsConnect w t cfg)
       \<and> log_equiv (snd (vsConnect (w\<lparr>getenv := g\<rparr>) s cfg)) (snd (vsConnect w t cfg))"
  using assms
  by (simp add: vsConnect_def newClient_def call_add_def log_add_def log_equiv_def Let_def
      split: sum.splits option.splits)

lemma moVirtualMachine_env:
  assumes "log_equiv s t"
  shows "fst (moVirtualMachine (w\<lparr>getenv := g\<rparr>) s m) = fst (moVirtualMachine w t m)
       \<and> log_equiv (snd (moVirtualMachine (w\<lparr>getenv := g\<rparr>) s m)) (snd (moVirtualMachine w t m))"
  using assms
  by (simp add: moVirtualMachine_def call_add_def log_add_def log_equiv_def Let_def
      split: sum.splits option.splits prod.splits)

lemma float64_to_int_env: "float64_to_int (w\<lparr>getenv := g\<rparr>) x = float64_to_int w x"
  by (simp add: float64_to_int_def split: float64.splits)

lemma incMemVal_env: "incMemVal (w\<lparr>getenv := g\<rparr>) mem = incMemVal w mem"
  by (simp add: incMemVal_def float64_to_int_env split: outcome.splits)

lemma selectTag_env:
  assumes "log_equiv s t"
  shows "fst (selectTag (w\<lparr>getenv := g\<rparr>) s ce vm) = fst (selectTag w t ce vm)
       \<and> log_equiv (snd (selectTag (w\<lparr>getenv := g\<rparr>) s ce vm)) (snd (selectTag w t ce vm))"
  using assms
  by (simp add: selectTag_def incMemVal_env call_add_def log_equiv_def Let_def
      split: sum.splits option.splits prod.splits outcome.splits)


lemma Handle_tag_env:
  assumes "log_equiv s t"
  shows "fst (Handle_tag (w\<lparr>getenv := g\<rparr>) s ce m vm) = fst (Handle_tag w t ce m vm)
       \<and> log_equiv (snd (Handle_tag (w\<lparr>getenv := g\<rparr>) s ce m vm)) (snd (Handle_tag w t ce m vm))"
proof -
  obtain r s1 where a: "selectTag (w\<lparr>getenv := g\<rparr>) s ce vm = (r, s1)"
    by fastforce
  obtain r' t1 where b: "selectTag w t ce vm = (r', t1)"
    by fastforce
  from selectTag_env [OF assms, of g w ce vm] a b
  have same: "r' = r" and rel: "log_equiv s1 t1"
    by simp_all
  show ?thesis
  proof (cases r)
    case (Panic p)
    with a b same rel show ?thesis
      by (simp add: Handle_tag_def)
  next
    case (Returned res)
    obtain catID tagID e where res: "res = (catID, tagID, e)"
      by (cases res) auto
    show ?thesis
    proof (cases e)
      case (Some err)
      with a b same rel Returned res return_err_env [OF rel] show ?thesis
        by (simp add: Handle_tag_def)
    next
      case None
      with a b same rel Returned res show ?thesis
        by (simp add: Handle_tag_def return_err_def return_ok_def errRespondAndLog_def
            call_add_def log_add_def log_equiv_def Let_def split: option.splits)
    qed
  qed
qed

lemma Handle_env:
  assumes "log_equiv s t"
  shows "fst (Handle (w\<lparr>getenv := g\<rparr>) s req) = fst (Handle w t req)
       \<and> log_equiv (snd (Handle (w\<lparr>getenv := g\<rparr>) s req)) (snd (Handle w t req))"
proof (cases "parseCloudEvent w (Request.Body req)")
  case (Inl err)
  with return_err_env [OF assms] show ?thesis
    by (simp add: Handle_def parseCloudEvent_env)
next
  case (Inr ev)
  show ?thesis
  proof (cases "isStorageInAlarm ev")
    case False
    with Inr return_ok_env [OF assms] show ?thesis
      by (simp add: Handle_def parseCloudEvent_env)
  next
    case True
    obtain c1 s1 where l1: "loadTomlCfg (w\<lparr>getenv := g\<rparr>) s cfgPath = (c1, s1)"
      by fastforce
    obtain c1' t1 where l2: "loadTomlCfg w t cfgPath = (c1', t1)"
      by fastforce
    from loadTomlCfg_env [OF assms, of g w cfgPath] l1 l2
    have c1: "c1' = c1" and rel1: "log_equiv s1 t1"
      by simp_all
    show ?thesis
    proof (cases c1)
      case (Inl err)
      with Inr True l1 l2 c1 return_err_env [OF rel1] show ?thesis
        by (simp add: Handle_def parseCloudEvent_env)
    next
      case cfg: (Inr cfg)
      obtain e2 s2 where v1: "vsConnect (w\<lparr>getenv := g\<rparr>) s1 cfg = (e2, s2)"
        by fastforce
      obtain e2' t2 where v2: "vsConnect w t1 cfg = (e2', t2)"
        by fastforce
      from vsConnect_env [OF rel1, of g w cfg] v1 v2
      have e2: "e2' = e2" and rel2: "log_equiv s2 t2"
        by simp_all
      show ?thesis
      proof (cases e2)
        case (Some err)
        with Inr True l1 l2 c1 cfg v1 v2 e2 return_err_env [OF rel2] show ?thesis
          by (simp add: Handle_def parseCloudEvent_env)
      next
        case None
        from rel2 have rel3: "log_equiv (s2\<lparr>once := True\<rparr>) (t2\<lparr>once := True\<rparr>)"
          by (simp add: log_equiv_def)
        show ?thesis
        proof (cases "eventVmMoRef ev")
          case (Panic p)
          with Inr True l1 l2 c1 cfg v1 v2 e2 None rel3 show ?thesis
            by (simp add: Handle_def parseCloudEvent_env)
        next
          case (Returned res)
          obtain vmMOR e3 where res: "res = (vmMOR, e3)"
            by (cases res) auto
          show ?thesis
          proof (cases e3)
            case (Some err)
            with Inr True l1 l2 c1 cfg v1 v2 e2 None Returned res return_err_env [OF rel3]
            show ?thesis
              by (simp add: Handle_def parseCloudEvent_env)
          next
            case no_err: None
            obtain m4 s4 where m1: "moVirtualMachine (w\<lparr>getenv := g\<rparr>) (s2\<lparr>once := True\<rparr>) vmMOR = (m4, s4)"
              by fastforce
            obtain m4' t4 where m2: "moVirtualMachine w (t2\<lparr>once := True\<rparr>) vmMOR = (m4', t4)"
              by fastforce
            from moVirtualMachine_env [OF rel3, of g w vmMOR] m1 m2
            have m4: "m4' = m4" and rel4: "log_equiv s4 t4"
              by simp_all
            show ?thesis
            proof (cases m4)
              case (Panic p)
              with Inr True l1 l2 c1 cfg v1 v2 e2 None Returned res no_err m1 m2 m4 rel4
              show ?thesis
                by (simp add: Handle_def parseCloudEvent_env)
            next
              case vm: (Returned moVM)
              with Inr True l1 l2 c1 cfg v1 v2 e2 None Returned res no_err m1 m2 m4
                Handle_tag_env [OF rel4, of g w ev vmMOR moVM]
              show ?thesis
                by (simp add: Handle_def parseCloudEvent_env)
            qed
          qed
        qed
      qed
    qed
  qed
qed

lemma answer_shape_Panic: "answer_shape (Panic p)"
  by (simp add: answer_shape_def)

lemma answer_shape_return_err: "answer_shape (fst (return_err w s p e))"
  by (auto simp add: answer_shape_def return_err_def errRespondAndLog_def Let_def)

lemma answer_shape_return_ok: "answer_shape (fst (return_ok s m))"
  by (simp add: answer_shape_def return_ok_def)

lemmas answer_shape_intros = answer_shape_Panic answer_shape_return_err answer_shape_return_ok

lemma answer_shape_Handle_tag: "answer_shape (fst (Handle_tag w s ce m vm))"
  by (simp add: Handle_tag_def answer_shape_intros Let_def
      split: prod.splits outcome.splits option.splits)

lemma answer_shape_Handle: "answer_shape (fst (Handle w s req))"
  by (simp add: Handle_def answer_shape_intros answer_shape_Handle_tag Let_def
      split: prod.splits outcome.splits option.splits sum.splits)

text \<open>
  C9. Two runs of \<^verbatim>\<open>Handle\<close> on the same payload, from the same state, in worlds that differ
  only in the environment (so in particular in \<^verbatim>\<open>write_debug\<close>) have the same outcome: the
  same response body, status code and returned error (or the same panic), and they leave
  states that differ at most in the log. A response that is returned has status 200 and a
  nil error, or status 500 and an error whose text ends the body.
\<close>

theorem Handle_debug_noninterference:
  "fst (Handle (w\<lparr>getenv := ga\<rparr>) s req) = fst (Handle (w\<lparr>getenv := gb\<rparr>) s req)
   \<and> log_equiv (snd (Handle (w\<lparr>getenv := ga\<rparr>) s req)) (snd (Handle (w\<lparr>getenv := gb\<rparr>) s req))
   \<and> (\<forall>r e. fst (Handle w s req) = Returned (r, e) \<longrightarrow>
         (e = None \<and> StatusCode r = 200)
         \<or> (\<exists>err prefix. e = Some err \<and> StatusCode r = 500 \<and> Response.Body r = prefix @ err))"
proof -
  have a: "fst (Handle (w\<lparr>getenv := ga\<rparr>) s req) = fst (Handle w s req)
         \<and> log_equiv (snd (Handle (w\<lparr>getenv := ga\<rparr>) s req)) (snd (Handle w s req))"
    by (rule Handle_env [OF log_equiv_refl])
  have b: "fst (Handle (w\<lparr>getenv := gb\<rparr>) s req) = fst (Handle w s req)
         \<and> log_equiv (snd (Handle (w\<lparr>getenv := gb\<rparr>) s req)) (snd (Handle w s req))"
    by (rule Handle_env [OF log_equiv_refl])
  have c: "\<forall>r e. fst (Handle w s req) = Returned (r, e) \<longrightarrow>
         (e = None \<and> StatusCode r = 200)
         \<or> (\<exists>err prefix. e = Some err \<and> StatusCode r = 500 \<and> Response.Body r = prefix @ err)"
    using answer_shape_Handle [of w s req]
    by (auto simp add: answer_shape_def StatusOK_def StatusInternalServerError_def
        split: option.splits)
  from a b c show ?thesis
    by (simp add: log_equiv_def)
qed

theorem Handle_debug_noninterference_witness:
  "debug world_debug \<and> \<not> debug world_login_fails
   \<and> fst (Handle world_debug init request) = fst (Handle world_login_fails init request)
   \<and> fst (Handle world_login_fails init request) =
       Returned
        (\<lparr>Response.Body =
            ''connecting to vSphere: connecting to vSphere API: log in to rest api failed: 401 Unauthorized'',
          StatusCode = 500\<rparr>,
         Some ''connecting to vSphere API: log in to rest api failed: 401 Unauthorized'')
   \<and> logged (snd (Handle world_debug init request)) \<noteq> logged (snd (Handle world_login_fails init request))"
proof -
  have w1: "world_login_fails\<lparr>getenv := (\<lambda>name. if name = ''write_debug'' then ''true'' else '''')\<rparr> = world_debug"
    by (simp add: world_debug_def)
  have w2: "world_login_fails\<lparr>getenv := getenv world_login_fails\<rparr> = world_login_fails"
    by simp
  have d: "debug world_debug \<and> \<not> debug world_login_fails"
    by (simp add: debug_def world_debug_def world_login_fails_def world_A_def)
  have r: "fst (Handle world_login_fails init request) =
       Returned
        (\<lparr>Response.Body =
            ''connecting to vSphere: connecting to vSphere API: log in to rest api failed: 401 Unauthorized'',
          StatusCode = 500\<rparr>,
         Some ''connecting to vSphere API: log in to rest api failed: 401 Unauthorized'')"
    by (simp add: handler_defs scenario_defs)
  have l: "logged (snd (Handle world_debug init request)) \<noteq> logged (snd (Handle world_login_fails init request))"
    by (simp add: handler_defs scenario_defs)
  from Handle_debug_noninterference
         [where w = world_login_fails and s = init and req = request
            and ga = "\<lambda>name. if name = ''write_debug'' then ''true'' else ''''"
            and gb = "getenv world_login_fails"]
  have "fst (Handle world_debug init request) = fst (Handle world_login_fails init request)"
    unfolding w1 w2 by simp
  with d r l show ?thesis by simp
qed

section \<open>The memory policy\<close>

text \<open>
  Evaluation of the float64 operations on numerals: bit lengths by halving, floors and
  ceilings of fractions by integer division.
\<close>

lemma bitlen_eval: "bitlen x = (if 0 < x then bitlen (x div 2) + 1 else 0)"
  by (rule compute_bitlen)

lemma floor_rat_numeral: "\<lfloor>(numeral a :: rat) / numeral b\<rfloor> = numeral a div numeral b"
  by (metis floor_divide_of_int_eq of_int_numeral)

lemma ceiling_rat_numeral: "\<lceil>(numeral a :: rat) / numeral b\<rceil> = - ((- numeral a) div numeral b)"
proof -
  have "\<lceil>(numeral a :: rat) / numeral b\<rceil> = - \<lfloor>(of_int (- numeral a) :: rat) / of_int (numeral b)\<rfloor>"
    by (simp add: ceiling_def)
  also have "\<dots> = - ((- numeral a) div numeral b)"
    by (simp only: floor_divide_of_int_eq)
  finally show ?thesis .
qed

lemmas float_eval =
  ilog2_def pow2_def round64_def round_half_even_def f64_mul_def f64_div_def
  float64_to_int_def bitlen_eval Let_def
  floor_rat_numeral ceiling_rat_numeral

text \<open>
  The rounding is the IEEE one: \<open>ilog2\<close> finds the binade of its argument, the result of
  \<open>round64\<close> is a multiple of the unit in the last place of that binade and lies within
  half a unit of the argument, and an integer multiple of the unit is not moved.
\<close>

lemma pow2_nonneg_exp: "0 \<le> e \<Longrightarrow> pow2 e = 2 ^ nat e"
  by (simp add: pow2_def)

lemma pow2_neg_exp: "e \<le> 0 \<Longrightarrow> pow2 e = 1 / 2 ^ nat (- e)"
  by (cases "e = 0") (simp_all add: pow2_def)

lemma ilog2_bounds:
  assumes "0 < x"
  shows "pow2 (ilog2 x) \<le> x \<and> x < pow2 (ilog2 x + 1)"
proof (cases "1 \<le> x")
  case True
  define n where "n = \<lfloor>x\<rfloor>"
  have n1: "1 \<le> n"
    using True by (simp add: n_def le_floor_iff)
  then have pos: "0 < n" by simp
  have b1: "1 \<le> bitlen n"
    using pos bitlen_nonneg [of n] bitlen_eq_zero_iff [of n] by linarith
  from bitlen_bounds [OF pos]
  have lo: "2 ^ nat (bitlen n - 1) \<le> n" and hi: "n < 2 ^ nat (bitlen n)"
    by simp_all
  have il: "ilog2 x = bitlen n - 1"
    using True by (simp add: ilog2_def n_def)
  have "(2 :: rat) ^ nat (bitlen n - 1) = of_int (2 ^ nat (bitlen n - 1))"
    by simp
  also have "\<dots> \<le> of_int n"
    using lo by (simp only: of_int_le_iff)
  also have "\<dots> \<le> x"
    by (simp add: n_def)
  finally have low: "pow2 (ilog2 x) \<le> x"
    using b1 by (simp add: il pow2_nonneg_exp)
  have "n + 1 \<le> 2 ^ nat (bitlen n)"
    using hi by simp
  then have "(of_int (n + 1) :: rat) \<le> 2 ^ nat (bitlen n)"
    by (simp only: of_int_le_numeral_power_cancel_iff)
  moreover have "x < of_int (n + 1)"
    using floor_correct [of x] by (simp add: n_def)
  ultimately have "x < 2 ^ nat (bitlen n)"
    by (rule less_le_trans [rotated])
  then have high: "x < pow2 (ilog2 x + 1)"
    using b1 by (simp add: il pow2_nonneg_exp)
  from low high show ?thesis ..
next
  case False
  define m where "m = \<lceil>1 / x\<rceil>"
  define b where "b = bitlen (m - 1)"
  have y1: "1 < 1 / x"
    using False assms by (simp add: field_simps)
  have m2: "2 \<le> m"
    using y1 by (simp add: m_def less_ceiling_iff)
  then have pos: "0 < m - 1" by simp
  have b1: "1 \<le> b"
    unfolding b_def using pos bitlen_nonneg [of "m - 1"] bitlen_eq_zero_iff [of "m - 1"] by linarith
  from bitlen_bounds [OF pos]
  have lo: "2 ^ nat (b - 1) \<le> m - 1" and hi: "m - 1 < 2 ^ nat b"
    by (simp_all add: b_def)
  have il: "ilog2 x = - b"
    using False by (simp add: ilog2_def m_def b_def)
  have "m \<le> 2 ^ nat b"
    using hi by simp
  then have "(of_int m :: rat) \<le> 2 ^ nat b"
    by (simp only: of_int_le_numeral_power_cancel_iff)
  moreover have "1 / x \<le> of_int m"
    by (simp add: m_def)
  ultimately have "1 / x \<le> 2 ^ nat b"
    by (rule order_trans [rotated])
  then have "1 \<le> 2 ^ nat b * x"
    using assms by (simp add: field_simps)
  then have "1 / 2 ^ nat b \<le> x"
    by (simp add: field_simps)
  then have low: "pow2 (ilog2 x) \<le> x"
    using b1 by (simp add: il pow2_neg_exp)
  have "(2 :: rat) ^ nat (b - 1) \<le> of_int (m - 1)"
    using lo by (simp only: numeral_power_le_of_int_cancel_iff)
  moreover have "of_int (m - 1) < 1 / x"
    using ceiling_correct [of "1 / x"] by (simp add: m_def)
  ultimately have "2 ^ nat (b - 1) < 1 / x"
    by (rule le_less_trans)
  then have "2 ^ nat (b - 1) * x < 1"
    using assms by (simp add: field_simps)
  then have "x < 1 / 2 ^ nat (b - 1)"
    by (simp add: field_simps)
  moreover have "pow2 (- b + 1) = 1 / 2 ^ nat (b - 1)"
    using b1 pow2_neg_exp [of "- b + 1"] by simp
  ultimately have high: "x < pow2 (ilog2 x + 1)"
    by (simp add: il)
  from low high show ?thesis ..
qed

lemma pow2_pos: "0 < pow2 e"
  by (simp add: pow2_def)

lemma round_half_even_of_int: "round_half_even (of_int n) = n"
  by (simp add: round_half_even_def)

lemma round_half_even_nearest: "\<bar>q - of_int (round_half_even q)\<bar> \<le> 1 / 2"
proof -
  define f where "f = \<lfloor>q\<rfloor>"
  define r where "r = round_half_even q"
  have lo: "of_int f \<le> q" and hi: "q < of_int f + 1"
    using floor_correct [of q] by (simp_all add: f_def)
  have "r = f \<and> q - of_int f \<le> 1 / 2 \<or> r = f + 1 \<and> 1 / 2 \<le> q - of_int f"
    unfolding r_def f_def round_half_even_def Let_def by auto
  then show ?thesis
    unfolding r_def [symmetric] using lo hi by (auto simp add: abs_if)
qed

lemma round64_nearest:
  assumes "x \<noteq> 0" and "round64 x = Finite y"
  defines "ulp \<equiv> pow2 (max (ilog2 \<bar>x\<bar>) (- 1022) - 52)"
  shows "\<bar>y - x\<bar> \<le> ulp / 2 \<and> (\<exists>n. y = of_int n * ulp)"
proof -
  define n where "n = round_half_even (x / ulp)"
  have u: "0 < ulp"
    by (simp add: ulp_def pow2_pos)
  have y: "y = of_int n * ulp"
    using assms(1,2) by (simp add: round64_def Let_def n_def ulp_def split: if_splits)
  have "\<bar>x / ulp - of_int n\<bar> \<le> 1 / 2"
    unfolding n_def by (rule round_half_even_nearest)
  then have "\<bar>x / ulp - of_int n\<bar> * ulp \<le> 1 / 2 * ulp"
    using u by (simp only: mult_le_cancel_right_pos)
  moreover have "\<bar>x / ulp - of_int n\<bar> * ulp = \<bar>y - x\<bar>"
  proof -
    have "\<bar>x / ulp - of_int n\<bar> * ulp = \<bar>(x / ulp - of_int n) * ulp\<bar>"
      using u by (simp add: abs_mult)
    also have "(x / ulp - of_int n) * ulp = x - y"
      using u by (simp add: y field_simps)
    finally show ?thesis
      by (simp add: abs_minus_commute)
  qed
  ultimately have "\<bar>y - x\<bar> \<le> ulp / 2"
    by simp
  with y show ?thesis
    by blast
qed

lemma round64_examples:
  "round64 (1 / 10) = Finite (3602879701896397 / 36028797018963968)"
  "round64 (1 / 3) = Finite (6004799503160661 / 18014398509481984)"
  "round64 9007199254740993 = Finite 9007199254740992"
  "round64 9007199254740995 = Finite 9007199254740996"
  by (simp_all add: float_eval)

text \<open>The constant \<^verbatim>\<open>1 / Ln10\<close> of \<^verbatim>\<open>math.Log10\<close> as a float64.\<close>

lemma inv_Ln10: "round64 (1 / Ln10) = Finite (3911776933737095 / 9007199254740992)"
  by (simp add: float_eval Ln10_def)

text \<open>
  The entries of \<open>go_Log10\<close> are the float64 products of the natural logarithm and that
  constant.
\<close>

lemma go_Log10_products:
  "go_Log10 (Finite 2) = f64_mul (go_Log (Finite 2)) (round64 (1 / Ln10))"
  "go_Log10 (Finite 2048) = f64_mul (go_Log (Finite 2048)) (round64 (1 / Ln10))"
  "go_Log10 (Finite 4096) = f64_mul (go_Log (Finite 4096)) (round64 (1 / Ln10))"
  "go_Log10 (Finite 8192) = f64_mul (go_Log (Finite 8192)) (round64 (1 / Ln10))"
  "go_Log10 (Finite 2097152) = f64_mul (go_Log (Finite 2097152)) (round64 (1 / Ln10))"
  "go_Log10 (Finite 4194304) = f64_mul (go_Log (Finite 4194304)) (round64 (1 / Ln10))"
  "go_Log10 (Finite 8388608) = f64_mul (go_Log (Finite 8388608)) (round64 (1 / Ln10))"
  by (simp_all add: inv_Ln10 go_Log10_def go_Log_def) (simp_all add: float_eval)

text \<open>
  The quotients \<^verbatim>\<open>math.Log10(mem) / math.Log10(2)\<close> in float64 arithmetic: at 2048, 8192,
  2097152 and 4194304 they fall short of the exponent by one or two units in the last
  place.
\<close>

lemma log_quotients:
  "f64_div (go_Log10 (Finite 2048)) (go_Log10 (Finite 2)) = Finite (6192449487634431 / 562949953421312)"
  "f64_div (go_Log10 (Finite 4096)) (go_Log10 (Finite 2)) = Finite 12"
  "f64_div (go_Log10 (Finite 8192)) (go_Log10 (Finite 2)) = Finite (7318349394477055 / 562949953421312)"
  "f64_div (go_Log10 (Finite 2097152)) (go_Log10 (Finite 2)) = Finite (5910974510923775 / 281474976710656)"
  "f64_div (go_Log10 (Finite 4194304)) (go_Log10 (Finite 2)) = Finite (6192449487634431 / 281474976710656)"
  "f64_div (go_Log10 (Finite 8388608)) (go_Log10 (Finite 2)) = Finite 23"
  by (simp_all add: go_Log10_def) (simp_all add: float_eval)

lemmas incMemVal_eval =
  incMemVal_def shl_def float64_to_int_def word_sless_alt Itoa_def decimal_def digits_eval
  floor_rat_numeral log_quotients

lemma incMemVal_go_Log10:
  assumes "math_Log10 w = go_Log10"
  shows "incMemVal w (Finite 2048) = Returned ''2048''"
    and "incMemVal w (Finite 4096) = Returned ''8192''"
    and "incMemVal w (Finite 8192) = Returned ''8192''"
    and "incMemVal w (Finite 2097152) = Returned ''2097152''"
    and "incMemVal w (Finite 4194304) = Returned ''4194304''"
    and "incMemVal w (Finite 8388608) = Returned ''8388608''"
  by (simp_all add: assms incMemVal_eval)

lemma math_Log10_scenarios:
  "math_Log10 world_A = go_Log10"
  "math_Log10 world_mem = go_Log10"
  "math_Log10 world_mem_2048 = go_Log10"
  by (simp_all add: world_A_def world_mem_def world_mem_2048_def)


section \<open>Further properties of the pipeline\<close>

text \<open>
  Scenario A, end to end: the machine has 2 CPUs, so the tier is 3; the tags of the category
  \<^verbatim>\<open>config.hardware.numCPU\<close> are listed, the tag named 3 is attached, and the answer names
  the machine, the tag and the category. The calls are made in this order.
\<close>

theorem Handle_scenario_A:
  "fst (Handle world_A init request) =
     Returned (\<lparr>Response.Body = ''vm-42 was tagged with tag-3, cat-cpu'', StatusCode = 200\<rparr>, None)
   \<and> client (snd (Handle world_A init request)) = Some session1
   \<and> calls (snd (Handle world_A init request)) =
       [Call_LoadFile ''/var/openfaas/secrets/vcconfig'',
        Call_NewClient (sdkURL vc) True,
        Call_Login (rest session1) (URL.User (sdkURL vc)),
        Call_Retrieve (govmomi session1) vm42,
        Call_GetTagsForCategory (tagMgr session1) ''config.hardware.numCPU'',
        Call_AttachTag (tagMgr session1) ''tag-3'' vm42]"
  by (simp add: handler_defs scenario_defs incCpuVal_eval)

text \<open>Scenario B: with 4 CPUs the tier is 4 (capped) and the tag named 4 is attached.\<close>

theorem Handle_scenario_B:
  "fst (Handle world_B init request) =
     Returned (\<lparr>Response.Body = ''vm-42 was tagged with tag-4, cat-cpu'', StatusCode = 200\<rparr>, None)
   \<and> Call_AttachTag (tagMgr session1) ''tag-4'' vm42 \<in> set (calls (snd (Handle world_B init request)))"
  by (simp add: handler_defs scenario_defs incCpuVal_eval world_B_def vm_4cpu_def)

text \<open>
  An actionable notification has one of the two categories: \<^verbatim>\<open>catName\<close> never yields the
  empty category behind \<^verbatim>\<open>isStorageInAlarm\<close>.
\<close>

theorem actionable_has_category:
  assumes "isStorageInAlarm event"
  shows "catName (AlarmEventArgument.Name (Alarm (Data event))) = ''config.hardware.numCPU''
       \<or> catName (AlarmEventArgument.Name (Alarm (Data event))) = ''config.hardware.memoryMB''"
  using assms by (auto simp add: isStorageInAlarm_def catName_def split: if_splits)

theorem actionable_has_category_witness:
  "isStorageInAlarm cpu_red
   \<and> catName (AlarmEventArgument.Name (Alarm (Data cpu_red))) = ''config.hardware.numCPU''"
proof -
  have a: "isStorageInAlarm cpu_red"
    by (simp add: isStorageInAlarm_def cpu_red_def event_of_def)
  from actionable_has_category [OF a] a show ?thesis
    by (simp add: catName_def cpu_red_def event_of_def)
qed

lemma validateConfig_loop_None:
  "validateConfig_loop kvs = None \<longleftrightarrow> (\<forall>kv \<in> set kvs. snd kv \<noteq> '''')"
  by (induction kvs rule: validateConfig_loop.induct) auto

lemma set_range_map:
  assumes "distinct (map fst m)"
  shows "set (range_map w m) = set m"
proof -
  define ks where "ks = remdups (filter (\<lambda>k. k \<in> set (map fst m)) (range_order w) @ map fst m)"
  have ks: "set ks = set (map fst m)"
    by (auto simp add: ks_def)
  have "set (range_map w m) = (\<lambda>k. (k, the (map_of m k))) ` set ks"
    by (simp add: range_map_def ks_def)
  also have "\<dots> = (\<lambda>k. (k, the (map_of m k))) ` fst ` set m"
    by (simp add: ks)
  also have "\<dots> = set m"
    using assms by (force simp add: image_iff)
  finally show ?thesis .
qed

text \<open>
  \<^verbatim>\<open>validateConfig\<close> accepts a configuration exactly when server, user and password are all
  non-empty, in whatever order the map is ranged over.
\<close>

theorem validateConfig_iff:
  "validateConfig w cfg = None \<longleftrightarrow>
     Server (VCenter cfg) \<noteq> '''' \<and> VCenter_t.User (VCenter cfg) \<noteq> '''' \<and> Password (VCenter cfg) \<noteq> ''''"
  by (simp add: validateConfig_def validateConfig_loop_None set_range_map)

text \<open>
  A payload that does not deserialize is answered with status 500 and the wrapped error;
  nothing is loaded and no session is touched.
\<close>

theorem Handle_malformed:
  assumes "json_Unmarshal w (Request.Body req) = Inl e"
  shows "fst (Handle w s req) =
           Returned (\<lparr>Response.Body = ''parsing cloud event data: unmarshalling json: '' @ e,
                      StatusCode = 500\<rparr>, Some (''unmarshalling json: '' @ e))
         \<and> client (snd (Handle w s req)) = client s
         \<and> calls (snd (Handle w s req)) = calls s"
  using assms
  by (simp add: Handle_def parseCloudEvent_def return_err_def errRespondAndLog_def
      StatusInternalServerError_def log_add_def Let_def)

theorem Handle_malformed_witness:
  "json_Unmarshal world_malformed (Request.Body request) = Inl ''unexpected end of JSON input''
   \<and> fst (Handle world_malformed init request) =
       Returned (\<lparr>Response.Body = ''parsing cloud event data: unmarshalling json: unexpected end of JSON input'',
                  StatusCode = 500\<rparr>, Some ''unmarshalling json: unexpected end of JSON input'')
   \<and> calls (snd (Handle world_malformed init request)) = []"
proof -
  have a: "json_Unmarshal world_malformed (Request.Body request) = Inl ''unexpected end of JSON input''"
    by (simp add: world_malformed_def)
  from Handle_malformed [OF a, of init] a show ?thesis
    by (simp add: init_def)
qed

text \<open>
  When both steps succeed, \<^verbatim>\<open>vsConnect\<close> installs the session, and a second call finds it
  and changes nothing.
\<close>

theorem vsConnect_installs_once:
  assumes "client s = None"
    and "govmomi_NewClient w (sdkURL cfg) (Insecure (VCenter cfg)) = Inr gc"
    and "rest_Login w (rest_NewClient gc) (URL.User (sdkURL cfg)) = None"
  shows "fst (vsConnect w s cfg) = None
       \<and> client (snd (vsConnect w s cfg)) =
           Some \<lparr>govmomi = gc, rest = rest_NewClient gc, tagMgr = tags_NewManager (rest_NewClient gc)\<rparr>
       \<and> vsConnect w (snd (vsConnect w s cfg)) cfg = (None, snd (vsConnect w s cfg))"
  using assms
  by (simp add: vsConnect_def newClient_def call_add_def log_add_def Let_def)

theorem vsConnect_installs_once_witness:
  "client init = None
   \<and> fst (vsConnect world_A init vc) = None
   \<and> client (snd (vsConnect world_A init vc)) = Some session1
   \<and> vsConnect world_A (snd (vsConnect world_A init vc)) vc = (None, snd (vsConnect world_A init vc))"
proof -
  have a: "client init = None"
    by (simp add: init_def)
  have b: "govmomi_NewClient world_A (sdkURL vc) (Insecure (VCenter vc)) = Inr 1"
    by (simp add: world_A_def)
  have c: "rest_Login world_A (rest_NewClient 1) (URL.User (sdkURL vc)) = None"
    by (simp add: world_A_def)
  from vsConnect_installs_once [OF a b c] a show ?thesis
    by (simp add: session1_def)
qed


text \<open>
  The memory alarm, end to end: 4096 MB gives the tier 8192, looked up in the category
  \<^verbatim>\<open>config.hardware.memoryMB\<close>.
\<close>

theorem Handle_scenario_memory:
  "fst (Handle world_mem init request) =
     Returned (\<lparr>Response.Body = ''vm-42 was tagged with tag-8192, cat-mem'', StatusCode = 200\<rparr>, None)
   \<and> Call_GetTagsForCategory (tagMgr session1) ''config.hardware.memoryMB''
       \<in> set (calls (snd (Handle world_mem init request)))"
proof -
  have tier: "incMemVal world_mem (int32_to_float64 4096) = Returned ''8192''"
    using incMemVal_go_Log10 (2) [OF math_Log10_scenarios (2)]
    by (simp add: int32_to_float64_def)
  show ?thesis
    using tier
    by (simp add: handler_defs scenario_defs world_mem_def mem_tags_def)
qed


end
